theory Spec2Isabelle
  imports Complex_Main "HOL-Library.Sublist"
begin

section \<open>JavaScript values\<close>

text \<open>
  The two servers of \<^verbatim>\<open>src/index.js\<close> (called variant A, lines 1-580, and variant B,
  lines 580-965) are Express applications. Their handlers compute with JavaScript
  numbers and strings, so the model starts with the few built-ins they call.

  A JavaScript number is \<open>NaN\<close>, an infinity or a finite value. Finite values are kept
  exact (a rational): the rounding of IEEE doubles, their overflow to \<open>Infinity\<close>
  and the sign of zero are not modelled. Strings are lists of ASCII characters; code
  units beyond ASCII (other Unicode white space, other letters with an upper case) are
  outside the model.
\<close>

datatype jsnum = NaN | PInf | NInf | Fin rat

datatype jsval = Undefined | Null | Bool bool | Num jsnum | Str string

text \<open>\<^verbatim>\<open>Math.max(a, b)\<close> and \<^verbatim>\<open>Math.min(a, b)\<close>: \<open>NaN\<close> as soon as one argument is.\<close>

fun math_max :: "jsnum \<Rightarrow> jsnum \<Rightarrow> jsnum" where
  "math_max NaN b = NaN"
| "math_max a NaN = NaN"
| "math_max PInf b = PInf"
| "math_max a PInf = PInf"
| "math_max NInf b = b"
| "math_max a NInf = a"
| "math_max (Fin a) (Fin b) = Fin (max a b)"

fun math_min :: "jsnum \<Rightarrow> jsnum \<Rightarrow> jsnum" where
  "math_min NaN b = NaN"
| "math_min a NaN = NaN"
| "math_min NInf b = NInf"
| "math_min a NInf = NInf"
| "math_min PInf b = b"
| "math_min a PInf = a"
| "math_min (Fin a) (Fin b) = Fin (min a b)"

text \<open>The operators \<^verbatim>\<open>a - b\<close>, \<^verbatim>\<open>a * b\<close> and \<^verbatim>\<open>a / b\<close> on numbers.\<close>

fun js_sub :: "jsnum \<Rightarrow> jsnum \<Rightarrow> jsnum" where
  "js_sub NaN b = NaN"
| "js_sub a NaN = NaN"
| "js_sub PInf PInf = NaN"
| "js_sub NInf NInf = NaN"
| "js_sub PInf b = PInf"
| "js_sub NInf b = NInf"
| "js_sub (Fin a) PInf = NInf"
| "js_sub (Fin a) NInf = PInf"
| "js_sub (Fin a) (Fin b) = Fin (a - b)"

fun js_mul :: "jsnum \<Rightarrow> jsnum \<Rightarrow> jsnum" where
  "js_mul NaN b = NaN"
| "js_mul a NaN = NaN"
| "js_mul PInf PInf = PInf"
| "js_mul PInf NInf = NInf"
| "js_mul NInf PInf = NInf"
| "js_mul NInf NInf = PInf"
| "js_mul PInf (Fin b) = (if b = 0 then NaN else if 0 < b then PInf else NInf)"
| "js_mul NInf (Fin b) = (if b = 0 then NaN else if 0 < b then NInf else PInf)"
| "js_mul (Fin a) PInf = (if a = 0 then NaN else if 0 < a then PInf else NInf)"
| "js_mul (Fin a) NInf = (if a = 0 then NaN else if 0 < a then NInf else PInf)"
| "js_mul (Fin a) (Fin b) = Fin (a * b)"

fun js_div :: "jsnum \<Rightarrow> jsnum \<Rightarrow> jsnum" where
  "js_div NaN b = NaN"
| "js_div a NaN = NaN"
| "js_div PInf (Fin b) = (if b < 0 then NInf else PInf)"
| "js_div NInf (Fin b) = (if b < 0 then PInf else NInf)"
| "js_div PInf b = NaN"
| "js_div NInf b = NaN"
| "js_div (Fin a) PInf = Fin 0"
| "js_div (Fin a) NInf = Fin 0"
| "js_div (Fin a) (Fin b) =
     (if b = 0 then (if a = 0 then NaN else if 0 < a then PInf else NInf)
      else Fin (a / b))"

text \<open>\<^verbatim>\<open>Math.ceil(x)\<close>.\<close>

fun math_ceil :: "jsnum \<Rightarrow> jsnum" where
  "math_ceil (Fin a) = Fin (of_int \<lceil>a\<rceil>)"
| "math_ceil x = x"

text \<open>The comparison \<^verbatim>\<open>a < b\<close> on numbers (\<^verbatim>\<open>a > b\<close> is \<^verbatim>\<open>b < a\<close>): false when an
  argument is \<open>NaN\<close>.\<close>

fun js_less :: "jsnum \<Rightarrow> jsnum \<Rightarrow> bool" where
  "js_less NaN b = False"
| "js_less a NaN = False"
| "js_less a NInf = False"
| "js_less PInf b = False"
| "js_less NInf b = True"
| "js_less a PInf = True"
| "js_less (Fin a) (Fin b) = (a < b)"

text \<open>Truthiness, as \<^verbatim>\<open>if (v)\<close>, \<^verbatim>\<open>!v\<close> and \<^verbatim>\<open>v || d\<close> test it.\<close>

fun truthy_num :: "jsnum \<Rightarrow> bool" where
  "truthy_num NaN = False"
| "truthy_num (Fin a) = (a \<noteq> 0)"
| "truthy_num x = True"

fun truthy :: "jsval \<Rightarrow> bool" where
  "truthy Undefined = False"
| "truthy Null = False"
| "truthy (Bool b) = b"
| "truthy (Num n) = truthy_num n"
| "truthy (Str s) = (s \<noteq> [])"

definition js_or :: "jsnum \<Rightarrow> jsnum \<Rightarrow> jsnum" where
  "js_or a d = (if truthy_num a then a else d)"

section \<open>Strings and the numeric parsers\<close>

definition code :: "char \<Rightarrow> nat" where
  "code c = of_char c"

definition is_space :: "char \<Rightarrow> bool" where
  "is_space c = (code c \<in> {9, 10, 11, 12, 13, 32})"

definition trim_start :: "string \<Rightarrow> string" where
  "trim_start s = dropWhile is_space s"

definition trim :: "string \<Rightarrow> string" where
  "trim s = rev (dropWhile is_space (rev (dropWhile is_space s)))"

text \<open>\<^verbatim>\<open>String.prototype.toUpperCase\<close> on ASCII text.\<close>

definition upper_char :: "char \<Rightarrow> char" where
  "upper_char c = (if 97 \<le> code c \<and> code c \<le> 122 then char_of (code c - 32) else c)"

definition toUpperCase :: "string \<Rightarrow> string" where
  "toUpperCase s = map upper_char s"

text \<open>The value of a character as a digit (letters count from ten, as in radix 16),
  and the number a digit string denotes in a radix.\<close>

definition digit_val :: "char \<Rightarrow> nat" where
  "digit_val c =
     (if 48 \<le> code c \<and> code c \<le> 57 then code c - 48
      else if 97 \<le> code c \<and> code c \<le> 122 then code c - 87
      else if 65 \<le> code c \<and> code c \<le> 90 then code c - 55
      else 36)"

definition is_radix_digit :: "nat \<Rightarrow> char \<Rightarrow> bool" where
  "is_radix_digit r c = (digit_val c < r)"

definition is_digit :: "char \<Rightarrow> bool" where
  "is_digit c = is_radix_digit 10 c"

definition digits_value :: "nat \<Rightarrow> string \<Rightarrow> nat" where
  "digits_value r s = foldl (\<lambda>acc c. acc * r + digit_val c) 0 s"

text \<open>Decimal digits of a natural number, and \<^verbatim>\<open>Number.prototype.toString\<close>. It is exact
  on the integers (below \<open>10\<^sup>2\<^sup>1\<close>, where JavaScript changes to exponent notation), which
  is all the handlers print; a fraction is printed by long division, cut at 17 digits.\<close>

fun digits :: "nat \<Rightarrow> string" where
  "digits n = (if n < 10 then [char_of (48 + n)] else digits (n div 10) @ [char_of (48 + n mod 10)])"

declare digits.simps [simp del]

fun frac_digits :: "nat \<Rightarrow> rat \<Rightarrow> string" where
  "frac_digits 0 r = []"
| "frac_digits (Suc k) r =
     (if r = 0 then []
      else char_of (48 + nat \<lfloor>r * 10\<rfloor>) # frac_digits k (r * 10 - of_int \<lfloor>r * 10\<rfloor>))"

definition unsigned_to_string :: "rat \<Rightarrow> string" where
  "unsigned_to_string a =
     digits (nat \<lfloor>a\<rfloor>) @
     (if a = of_int \<lfloor>a\<rfloor> then [] else CHR ''.'' # frac_digits 17 (a - of_int \<lfloor>a\<rfloor>))"

fun number_to_string :: "jsnum \<Rightarrow> string" where
  "number_to_string NaN = ''NaN''"
| "number_to_string PInf = ''Infinity''"
| "number_to_string NInf = ''-Infinity''"
| "number_to_string (Fin a) =
     (if a < 0 then CHR ''-'' # unsigned_to_string (- a) else unsigned_to_string a)"

text \<open>\<^verbatim>\<open>parseInt(s)\<close> with no radix: leading white space is skipped, a sign is read, a
  \<^verbatim>\<open>0x\<close> prefix selects radix 16, and the longest prefix of digits is the value; with no
  digit the result is \<open>NaN\<close>. A number argument is converted to its string first.\<close>

definition strip_sign :: "string \<Rightarrow> bool \<times> string" where
  "strip_sign s =
     (case s of
        [] \<Rightarrow> (False, [])
      | c # cs \<Rightarrow> if c = CHR ''-'' then (True, cs) else if c = CHR ''+'' then (False, cs) else (False, s))"

definition parseInt_string :: "string \<Rightarrow> jsnum" where
  "parseInt_string s =
     (let (neg, s2) = strip_sign (trim_start s);
          hex = (take 2 s2 = ''0x'' \<or> take 2 s2 = ''0X'');
          r = (if hex then 16 else 10);
          z = takeWhile (is_radix_digit r) (if hex then drop 2 s2 else s2)
      in if z = [] then NaN
         else Fin (of_int ((if neg then - 1 else 1) * int (digits_value r z))))"

fun to_string :: "jsval \<Rightarrow> string" where
  "to_string Undefined = ''undefined''"
| "to_string Null = ''null''"
| "to_string (Bool b) = (if b then ''true'' else ''false'')"
| "to_string (Num n) = number_to_string n"
| "to_string (Str s) = s"

definition parseInt :: "jsval \<Rightarrow> jsnum" where
  "parseInt v = parseInt_string (to_string v)"

text \<open>The decimal literals of \<^verbatim>\<open>parseFloat\<close> and of the coercion of a string to a number:
  an optional sign, then \<^verbatim>\<open>Infinity\<close> or digits with an optional fraction and an
  optional exponent. \<open>parse_decimal\<close> reads the longest such prefix and returns its
  value with the rest of the string.\<close>

definition parse_exponent :: "string \<Rightarrow> int \<times> string" where
  "parse_exponent s =
     (case s of
        [] \<Rightarrow> (0, s)
      | c # cs \<Rightarrow>
          if c = CHR ''e'' \<or> c = CHR ''E'' then
            (let (neg, t) = strip_sign cs; ds = takeWhile is_digit t
             in if ds = [] then (0, s)
                else ((if neg then - 1 else 1) * int (digits_value 10 ds), dropWhile is_digit t))
          else (0, s))"

definition scale10 :: "rat \<Rightarrow> int \<Rightarrow> rat" where
  "scale10 a e = (if 0 \<le> e then a * 10 ^ nat e else a / 10 ^ nat (- e))"

definition parse_unsigned_decimal :: "string \<Rightarrow> (jsnum \<times> string) option" where
  "parse_unsigned_decimal s =
     (if take 8 s = ''Infinity'' then Some (PInf, drop 8 s)
      else
        let ip = takeWhile is_digit s; r1 = dropWhile is_digit s;
            dot = (r1 \<noteq> [] \<and> hd r1 = CHR ''.'');
            fp = (if dot then takeWhile is_digit (tl r1) else []);
            r2 = (if dot then dropWhile is_digit (tl r1) else r1)
        in if ip = [] \<and> fp = [] then None
           else
             let (e, r3) = parse_exponent r2;
                 m = of_nat (digits_value 10 ip) + of_nat (digits_value 10 fp) / 10 ^ length fp
             in Some (Fin (scale10 m e), r3))"

fun js_neg :: "jsnum \<Rightarrow> jsnum" where
  "js_neg NaN = NaN"
| "js_neg PInf = NInf"
| "js_neg NInf = PInf"
| "js_neg (Fin a) = Fin (- a)"

definition parse_decimal :: "string \<Rightarrow> (jsnum \<times> string) option" where
  "parse_decimal s =
     (let (neg, t) = strip_sign s
      in case parse_unsigned_decimal t of
           None \<Rightarrow> None
         | Some (v, r) \<Rightarrow> Some (if neg then js_neg v else v, r))"

definition parseFloat :: "string \<Rightarrow> jsnum" where
  "parseFloat s =
     (case parse_decimal (trim_start s) of None \<Rightarrow> NaN | Some (v, r) \<Rightarrow> v)"

text \<open>The coercion of a string to a number (\<^verbatim>\<open>Number(s)\<close>, which \<^verbatim>\<open>isNaN(s)\<close> applies):
  white space is trimmed on both sides; the empty string is 0; an unsigned literal with
  prefix \<^verbatim>\<open>0x\<close>, \<^verbatim>\<open>0o\<close> or \<^verbatim>\<open>0b\<close> is read in its radix; otherwise the whole string must
  be one decimal literal.\<close>

definition radix_of_prefix :: "string \<Rightarrow> nat option" where
  "radix_of_prefix p =
     (if p = ''0x'' \<or> p = ''0X'' then Some 16
      else if p = ''0o'' \<or> p = ''0O'' then Some 8
      else if p = ''0b'' \<or> p = ''0B'' then Some 2
      else None)"

definition string_to_number :: "string \<Rightarrow> jsnum" where
  "string_to_number s =
     (let t = trim s
      in if t = [] then Fin 0
         else case radix_of_prefix (take 2 t) of
           Some r \<Rightarrow>
             (if drop 2 t \<noteq> [] \<and> list_all (is_radix_digit r) (drop 2 t)
              then Fin (of_nat (digits_value r (drop 2 t))) else NaN)
         | None \<Rightarrow>
             (case parse_decimal t of
                Some (v, []) \<Rightarrow> v
              | _ \<Rightarrow> NaN))"

fun to_number :: "jsval \<Rightarrow> jsnum" where
  "to_number Undefined = NaN"
| "to_number Null = Fin 0"
| "to_number (Bool b) = (if b then Fin 1 else Fin 0)"
| "to_number (Num n) = n"
| "to_number (Str s) = string_to_number s"

definition isNaN :: "jsval \<Rightarrow> bool" where
  "isNaN v = (to_number v = NaN)"

section \<open>The collaborators of the handlers\<close>

text \<open>
  A result row of \<^verbatim>\<open>pool.execute\<close> is an object: column names with their values; reading
  a property that is not there gives \<^verbatim>\<open>undefined\<close>. The database, the password hasher
  and the clock are outside the repository, so they are fields of an environment:
  \<open>execute\<close> is \<^verbatim>\<open>pool.execute(sql, params)\<close> (the rows, or the error it throws) and
  \<open>bcrypt_compare\<close> is \<^verbatim>\<open>bcrypt.compare(data, hash)\<close>. \<open>other\<close> stands for the handlers
  this development does not look into (sign-up and owned games).
\<close>

type_synonym row = "(string \<times> jsval) list"

definition get_prop :: "row \<Rightarrow> string \<Rightarrow> jsval" where
  "get_prop r k = (case map_of r k of None \<Rightarrow> Undefined | Some v \<Rightarrow> v)"

datatype exn = Error string

record pagination =
  currentPage :: jsnum
  totalPages :: jsnum
  totalGames :: jsval
  gamesPerPage :: jsnum
  hasNextPage :: bool
  hasPrevPage :: bool

text \<open>The bodies the handlers send: \<^verbatim>\<open>{success, message}\<close>, the login answer with its
  \<^verbatim>\<open>user\<close> object, the page of games, one game, the statistics row (\<^verbatim>\<open>stats[0]\<close>, which
  is \<^verbatim>\<open>undefined\<close> on an empty result), the health answer with its time stamp, and a
  file of \<^verbatim>\<open>public/\<close>.\<close>

datatype body =
    Message bool string
  | LoginOk string row
  | GamesPage "row list" pagination
  | GameData row
  | Statistics "row option"
  | Health string string
  | File string

datatype response = Response nat body

datatype verb = GET | POST | OtherMethod

datatype endpoint =
    LoginPage | DashboardPage | SignupPage | ApiLogin | ApiSignup | ApiGames | ApiGameById
  | ApiGameBySteam | ApiOwnedGames | ApiStats | ApiHealth | NotFound

type_synonym query = "string \<rightharpoonup> string"

record request =
  req_method :: verb
  req_path :: string
  req_query :: query
  req_body :: "string \<rightharpoonup> jsval"

record env =
  execute :: "string \<Rightarrow> jsval list \<Rightarrow> exn + row list"
  bcrypt_compare :: "jsval \<Rightarrow> jsval \<Rightarrow> exn + bool"
  now :: string
  other :: "endpoint \<Rightarrow> request \<Rightarrow> response"

section \<open>POST /api/login\<close>

definition body_field :: "(string \<rightharpoonup> jsval) \<Rightarrow> string \<Rightarrow> jsval" where
  "body_field b k = (case b k of None \<Rightarrow> Undefined | Some v \<Rightarrow> v)"

definition login_sql_A :: string where
  "login_sql_A = ''SELECT id, username, password_hash FROM users WHERE username = ?''"

definition login_sql_B :: string where
  "login_sql_B = ''SELECT username, password_hash FROM users WHERE username = ?''"

definition login :: "string \<Rightarrow> string list \<Rightarrow> env \<Rightarrow> (string \<rightharpoonup> jsval) \<Rightarrow> response" where
  "login sql user_fields env b =
     (let username = body_field b ''username''; password = body_field b ''password''
      in if \<not> truthy username \<or> \<not> truthy password
         then Response 400 (Message False ''Username and password are required'')
         else
           case execute env sql [username] of
             Inl e \<Rightarrow> Response 500 (Message False ''Internal server error'')
           | Inr rows \<Rightarrow>
               (case rows of
                  [] \<Rightarrow> Response 401 (Message False ''Invalid username or password'')
                | user # rest \<Rightarrow>
                    (case bcrypt_compare env password (get_prop user ''password_hash'') of
                       Inl e \<Rightarrow> Response 500 (Message False ''Internal server error'')
                     | Inr isPasswordValid \<Rightarrow>
                         if \<not> isPasswordValid
                         then Response 401 (Message False ''Invalid username or password'')
                         else Response 200
                                (LoginOk ''Login successful''
                                   (map (\<lambda>k. (k, get_prop user k)) user_fields)))))"

text \<open>Variant A selects and returns the user's id as well; variant B only the name.\<close>

definition login_A :: "env \<Rightarrow> (string \<rightharpoonup> jsval) \<Rightarrow> response" where
  "login_A = login login_sql_A [''username'', ''id'']"

definition login_B :: "env \<Rightarrow> (string \<rightharpoonup> jsval) \<Rightarrow> response" where
  "login_B = login login_sql_B [''username'']"

section \<open>GET /api/games\<close>

text \<open>
  \<^verbatim>\<open>req.query\<close> maps a parameter name to its text; a parameter that is absent is
  \<^verbatim>\<open>undefined\<close> (\<open>None\<close>). The destructuring gives \<^verbatim>\<open>sortBy\<close>, \<^verbatim>\<open>order\<close>, \<^verbatim>\<open>page\<close> and
  \<^verbatim>\<open>limit\<close> the defaults \<^verbatim>\<open>'name'\<close>, \<^verbatim>\<open>'ASC'\<close>, \<^verbatim>\<open>1\<close> and \<^verbatim>\<open>20\<close> (numbers, not strings).
  Repeated and bracketed parameters, which Express turns into arrays and objects, are
  outside the model.
\<close>

definition string_or :: "query \<Rightarrow> string \<Rightarrow> string \<Rightarrow> string" where
  "string_or q k d = (case q k of None \<Rightarrow> d | Some s \<Rightarrow> s)"

definition number_or :: "query \<Rightarrow> string \<Rightarrow> rat \<Rightarrow> jsval" where
  "number_or q k d = (case q k of None \<Rightarrow> Num (Fin d) | Some s \<Rightarrow> Str s)"

subsection \<open>Pagination\<close>

text \<open>Variant A (lines 264-266):
  \<^verbatim>\<open>pageNum = Math.max(1, parseInt(page) || 1)\<close>,
  \<^verbatim>\<open>limitNum = Math.min(100, Math.max(1, parseInt(limit) || 20))\<close>,
  \<^verbatim>\<open>offset = (pageNum - 1) * limitNum\<close>.\<close>

definition pageNum_A :: "query \<Rightarrow> jsnum" where
  "pageNum_A q = math_max (Fin 1) (js_or (parseInt (number_or q ''page'' 1)) (Fin 1))"

definition limitNum_A :: "query \<Rightarrow> jsnum" where
  "limitNum_A q =
     math_min (Fin 100) (math_max (Fin 1) (js_or (parseInt (number_or q ''limit'' 20)) (Fin 20)))"

text \<open>Variant B (lines 703-705): the same without the \<^verbatim>\<open>|| 1\<close> and \<^verbatim>\<open>|| 20\<close>.\<close>

definition pageNum_B :: "query \<Rightarrow> jsnum" where
  "pageNum_B q = math_max (Fin 1) (parseInt (number_or q ''page'' 1))"

definition limitNum_B :: "query \<Rightarrow> jsnum" where
  "limitNum_B q = math_min (Fin 100) (math_max (Fin 1) (parseInt (number_or q ''limit'' 20)))"

definition offset_of :: "jsnum \<Rightarrow> jsnum \<Rightarrow> jsnum" where
  "offset_of pageNum limitNum = js_mul (js_sub pageNum (Fin 1)) limitNum"

subsection \<open>The filters\<close>

text \<open>\<^verbatim>\<open>whereConditions\<close> and \<^verbatim>\<open>baseParams\<close> are two arrays that grow together: a filter
  that is given pushes its condition on the first and its value on the second.\<close>

type_synonym filters = "string list \<times> jsval list"

definition push_filter :: "bool \<Rightarrow> string \<Rightarrow> jsval \<Rightarrow> filters \<Rightarrow> filters" where
  "push_filter given cond v f = (if given then (fst f @ [cond], snd f @ [v]) else f)"

text \<open>The tests: \<^verbatim>\<open>if (search)\<close>, and for a bound \<^verbatim>\<open>x !== undefined && x !== ''\<close> in
  variant A, \<^verbatim>\<open>if (x)\<close> in variant B.\<close>

definition truthy_string :: "string option \<Rightarrow> bool" where
  "truthy_string x = (case x of None \<Rightarrow> False | Some s \<Rightarrow> s \<noteq> [])"

definition given_A :: "string option \<Rightarrow> bool" where
  "given_A x = (x \<noteq> None \<and> x \<noteq> Some [])"

definition text_of :: "string option \<Rightarrow> string" where
  "text_of x = (case x of None \<Rightarrow> ''undefined'' | Some s \<Rightarrow> s)"

definition build_filters :: "(string option \<Rightarrow> bool) \<Rightarrow> query \<Rightarrow> filters" where
  "build_filters given q =
     (let search = q ''search''; minPrice = q ''minPrice''; maxPrice = q ''maxPrice'';
          minHours = q ''minHours''; maxHours = q ''maxHours'';
          f0 = ([], []);
          f1 = push_filter (truthy_string search) ''name LIKE ?''
                 (Str (''%'' @ text_of search @ ''%'')) f0;
          f2 = push_filter (given minPrice) ''price_usd >= ?''
                 (Num (parseFloat (text_of minPrice))) f1;
          f3 = push_filter (given maxPrice) ''price_usd <= ?''
                 (Num (parseFloat (text_of maxPrice))) f2;
          f4 = push_filter (given minHours) ''hours_to_beat >= ?''
                 (Num (parseFloat (text_of minHours))) f3;
          f5 = push_filter (given maxHours) ''hours_to_beat <= ?''
                 (Num (parseFloat (text_of maxHours))) f4
      in f5)"

definition filters_A :: "query \<Rightarrow> filters" where
  "filters_A = build_filters given_A"

definition filters_B :: "query \<Rightarrow> filters" where
  "filters_B = build_filters truthy_string"

text \<open>\<^verbatim>\<open>whereConditions.join(' AND ')\<close> and the \<^verbatim>\<open>WHERE\<close> clause.\<close>

fun join :: "string \<Rightarrow> string list \<Rightarrow> string" where
  "join sep [] = []"
| "join sep [x] = x"
| "join sep (x # y # ys) = x @ sep @ join sep (y # ys)"

definition whereClause :: "string list \<Rightarrow> string" where
  "whereClause whereConditions =
     (if length whereConditions > 0 then ''WHERE '' @ join '' AND '' whereConditions else [])"

subsection \<open>Sorting\<close>

definition validSortColumns :: "string list" where
  "validSortColumns = [''name'', ''price_usd'', ''hours_to_beat'', ''cost_per_hour'', ''created_at'']"

definition sortColumn :: "query \<Rightarrow> string" where
  "sortColumn q =
     (let sortBy = string_or q ''sortBy'' ''name''
      in if sortBy \<in> set validSortColumns then sortBy else ''name'')"

definition sortOrder :: "query \<Rightarrow> string" where
  "sortOrder q =
     (let order = string_or q ''order'' ''ASC''
      in if toUpperCase order = ''DESC'' then ''DESC'' else ''ASC'')"

subsection \<open>The two queries\<close>

definition countQuery :: "string \<Rightarrow> string" where
  "countQuery wc = ''SELECT COUNT(*) as total FROM steam_games '' @ wc"

text \<open>Variant A writes the limit and the offset into the text (line 329).\<close>

definition gamesQuery_A :: "string \<Rightarrow> string \<Rightarrow> string \<Rightarrow> jsnum \<Rightarrow> jsnum \<Rightarrow> string" where
  "gamesQuery_A wc col ord limitNum offset =
     ''SELECT id, name, steam_appid, price_usd, hours_to_beat, cost_per_hour, created_at, updated_at FROM steam_games ''
     @ wc @ '' ORDER BY '' @ col @ '' '' @ ord
     @ '' LIMIT '' @ number_to_string limitNum @ '' OFFSET '' @ number_to_string offset"

text \<open>Variant B binds them as two more parameters (lines 748-765).\<close>

definition gamesQuery_B :: "string \<Rightarrow> string \<Rightarrow> string \<Rightarrow> string" where
  "gamesQuery_B wc col ord =
     ''\<newline>      SELECT \<newline>        id,\<newline>        name,\<newline>        steam_appid,\<newline>        price_usd,\<newline>        hours_to_beat,\<newline>        cost_per_hour,\<newline>        created_at,\<newline>        updated_at\<newline>      FROM steam_games \<newline>      ''
     @ wc @ ''\<newline>      ORDER BY '' @ col @ '' '' @ ord
     @ ''\<newline>      LIMIT ? OFFSET ?\<newline>    ''"

definition gamesParams_A :: "jsval list \<Rightarrow> jsval list" where
  "gamesParams_A baseParams = baseParams"

definition gamesParams_B :: "jsval list \<Rightarrow> jsnum \<Rightarrow> jsnum \<Rightarrow> jsval list" where
  "gamesParams_B baseParams limitNum offset = baseParams @ [Num limitNum, Num offset]"

text \<open>\<^verbatim>\<open>(gamesQuery.match(/\?/g) || []).length\<close>: the number of question marks.\<close>

definition placeholders :: "string \<Rightarrow> nat" where
  "placeholders sql = length (filter (\<lambda>c. c = CHR ''?'') sql)"

text \<open>Running the fetch query. Variant A first compares the number of parameters with the
  number of placeholders and throws on a difference (lines 341-345); variant B runs the
  query as it is (line 766).\<close>

definition fetch_A :: "env \<Rightarrow> string \<Rightarrow> jsval list \<Rightarrow> exn + row list" where
  "fetch_A env gamesQuery gamesParams =
     (if length gamesParams \<noteq> placeholders gamesQuery
      then Inl (Error (''Parameter count mismatch: '' @ digits (length gamesParams)
                       @ '' params vs '' @ digits (placeholders gamesQuery) @ '' placeholders''))
      else execute env gamesQuery gamesParams)"

definition fetch_B :: "env \<Rightarrow> string \<Rightarrow> jsval list \<Rightarrow> exn + row list" where
  "fetch_B env gamesQuery gamesParams = execute env gamesQuery gamesParams"

subsection \<open>The handlers\<close>

definition page_info :: "jsnum \<Rightarrow> jsnum \<Rightarrow> jsval \<Rightarrow> pagination" where
  "page_info pageNum limitNum counted =
     (let pages = math_ceil (js_div (to_number counted) limitNum)
      in \<lparr>currentPage = pageNum, totalPages = pages, totalGames = counted,
          gamesPerPage = limitNum,
          hasNextPage = js_less pageNum pages,
          hasPrevPage = js_less (Fin 1) pageNum\<rparr>)"

definition games_error :: response where
  "games_error = Response 500 (Message False ''Error fetching games'')"

text \<open>Every throw inside the handler (a failing query, \<^verbatim>\<open>countResult[0].total\<close> on an
  empty result, the parameter count check) ends in the \<^verbatim>\<open>catch\<close>, which answers 500.\<close>

definition games_A :: "env \<Rightarrow> query \<Rightarrow> response" where
  "games_A env q =
     (let pageNum = pageNum_A q; limitNum = limitNum_A q;
          offset = offset_of pageNum limitNum;
          (whereConditions, baseParams) = filters_A q;
          wc = whereClause whereConditions
      in case execute env (countQuery wc) baseParams of
           Inl e \<Rightarrow> games_error
         | Inr countResult \<Rightarrow>
             (case countResult of
                [] \<Rightarrow> games_error
              | first # rest \<Rightarrow>
                  (case fetch_A env (gamesQuery_A wc (sortColumn q) (sortOrder q) limitNum offset)
                          (gamesParams_A baseParams) of
                     Inl e \<Rightarrow> games_error
                   | Inr games \<Rightarrow>
                       Response 200
                         (GamesPage games (page_info pageNum limitNum (get_prop first ''total''))))))"

definition games_B :: "env \<Rightarrow> query \<Rightarrow> response" where
  "games_B env q =
     (let pageNum = pageNum_B q; limitNum = limitNum_B q;
          offset = offset_of pageNum limitNum;
          (whereConditions, baseParams) = filters_B q;
          wc = whereClause whereConditions
      in case execute env (countQuery wc) baseParams of
           Inl e \<Rightarrow> games_error
         | Inr countResult \<Rightarrow>
             (case countResult of
                [] \<Rightarrow> games_error
              | first # rest \<Rightarrow>
                  (case fetch_B env (gamesQuery_B wc (sortColumn q) (sortOrder q))
                          (gamesParams_B baseParams limitNum offset) of
                     Inl e \<Rightarrow> games_error
                   | Inr games \<Rightarrow>
                       Response 200
                         (GamesPage games (page_info pageNum limitNum (get_prop first ''total''))))))"

section \<open>GET /api/games/:id, /api/games/steam/:appid and /api/games/stats\<close>

text \<open>These three handlers are the same text in both variants. The SQL is a template
  literal over several lines; the model keeps its line breaks and indentation.\<close>

definition select_game :: string where
  "select_game =
     ''SELECT \<newline>        id,\<newline>        name,\<newline>        steam_appid,\<newline>        price_usd,\<newline>        hours_to_beat,\<newline>        cost_per_hour,\<newline>        created_at,\<newline>        updated_at\<newline>      FROM steam_games \<newline>      ''"

definition game_by_id_sql :: string where
  "game_by_id_sql = select_game @ ''WHERE id = ?''"

definition game_by_steam_sql :: string where
  "game_by_steam_sql = select_game @ ''WHERE steam_appid = ?''"

text \<open>\<^verbatim>\<open>if (!id || isNaN(id))\<close> answers 400; otherwise the row is looked up with the id
  as it was given, and an empty result answers 404.\<close>

definition find_game :: "string \<Rightarrow> string \<Rightarrow> env \<Rightarrow> string \<Rightarrow> response" where
  "find_game sql invalid env ident =
     (if ident = [] \<or> isNaN (Str ident) then Response 400 (Message False invalid)
      else
        case execute env sql [Str ident] of
          Inl e \<Rightarrow> Response 500 (Message False ''Error fetching game'')
        | Inr rows \<Rightarrow>
            (case rows of
               [] \<Rightarrow> Response 404 (Message False ''Game not found'')
             | first # rest \<Rightarrow> Response 200 (GameData first)))"

definition game_by_id :: "env \<Rightarrow> string \<Rightarrow> response" where
  "game_by_id = find_game game_by_id_sql ''Invalid game ID''"

definition game_by_steam :: "env \<Rightarrow> string \<Rightarrow> response" where
  "game_by_steam = find_game game_by_steam_sql ''Invalid Steam App ID''"

definition stats_sql :: string where
  "stats_sql =
     ''\<newline>      SELECT \<newline>        COUNT(*) as total_games,\<newline>        AVG(price_usd) as avg_price,\<newline>        MIN(price_usd) as min_price,\<newline>        MAX(price_usd) as max_price,\<newline>        AVG(hours_to_beat) as avg_hours,\<newline>        MIN(hours_to_beat) as min_hours,\<newline>        MAX(hours_to_beat) as max_hours,\<newline>        AVG(cost_per_hour) as avg_cost_per_hour\<newline>      FROM steam_games\<newline>      WHERE price_usd IS NOT NULL \<newline>        AND hours_to_beat IS NOT NULL \<newline>        AND cost_per_hour IS NOT NULL\<newline>    ''"

definition games_stats :: "env \<Rightarrow> response" where
  "games_stats env =
     (case execute env stats_sql [] of
        Inl e \<Rightarrow> Response 500 (Message False ''Error fetching game statistics'')
      | Inr stats \<Rightarrow>
          Response 200 (Statistics (case stats of [] \<Rightarrow> None | first # rest \<Rightarrow> Some first)))"

section \<open>Routing\<close>

text \<open>
  Express keeps the routes in the order of their registration and gives a request to
  the first one whose method and path match; every handler here answers without
  passing the request on, so later routes never see it. A path pattern is a list of
  segments, literal or a named parameter (\<^verbatim>\<open>:id\<close>). As in Express 4, a literal is
  compared without regard to case, a parameter takes one non-empty segment, and one
  trailing slash is allowed. The path is taken as already percent-decoded, and the
  static file middleware in front of the routes as having passed the request on (the
  path names no file of \<^verbatim>\<open>public/\<close>). A segment with an encoded slash is outside the
  model.
\<close>

datatype seg = Lit string | Param string

type_synonym route = "verb \<times> seg list \<times> endpoint"

fun split_on :: "char \<Rightarrow> string \<Rightarrow> string list" where
  "split_on c [] = [[]]"
| "split_on c (x # xs) =
     (if x = c then [] # split_on c xs
      else case split_on c xs of [] \<Rightarrow> [[x]] | y # ys \<Rightarrow> (x # y) # ys)"

fun match_segs :: "seg list \<Rightarrow> string list \<Rightarrow> (string \<times> string) list option" where
  "match_segs [] [] = Some []"
| "match_segs (Lit l # ps) (s # ss) =
     (if toUpperCase l = toUpperCase s then match_segs ps ss else None)"
| "match_segs (Param n # ps) (s # ss) =
     (if s \<noteq> [] then map_option ((#) (n, s)) (match_segs ps ss) else None)"
| "match_segs ps ss = None"

definition match_path :: "seg list \<Rightarrow> string \<Rightarrow> (string \<times> string) list option" where
  "match_path pat path =
     (case split_on CHR ''/'' path of
        [] \<Rightarrow> None
      | lead # segs \<Rightarrow>
          if lead \<noteq> [] then None
          else case match_segs pat segs of
            Some ps \<Rightarrow> Some ps
          | None \<Rightarrow> if segs \<noteq> [] \<and> last segs = [] then match_segs pat (butlast segs) else None)"

fun dispatch :: "route list \<Rightarrow> verb \<Rightarrow> string \<Rightarrow> endpoint \<times> (string \<times> string) list" where
  "dispatch [] m path = (NotFound, [])"
| "dispatch ((m', pat, e) # rs) m path =
     (if m' = m then
        (case match_path pat path of Some ps \<Rightarrow> (e, ps) | None \<Rightarrow> dispatch rs m path)
      else dispatch rs m path)"

text \<open>The routes of variant A, in the order of lines 46-555; \<^verbatim>\<open>app.use('*', ...)\<close> after
  them answers every request that is left (\<open>NotFound\<close>).\<close>

definition routes_A :: "route list" where
  "routes_A =
     [(GET, [], LoginPage),
      (GET, [Lit ''dashboard''], DashboardPage),
      (POST, [Lit ''api'', Lit ''login''], ApiLogin),
      (POST, [Lit ''api'', Lit ''signup''], ApiSignup),
      (GET, [Lit ''signup''], SignupPage),
      (GET, [Lit ''api'', Lit ''games''], ApiGames),
      (GET, [Lit ''api'', Lit ''games'', Param ''id''], ApiGameById),
      (GET, [Lit ''api'', Lit ''games'', Lit ''steam'', Param ''appid''], ApiGameBySteam),
      (GET, [Lit ''api'', Lit ''owned-games''], ApiOwnedGames),
      (GET, [Lit ''api'', Lit ''games'', Lit ''stats''], ApiStats),
      (GET, [Lit ''api'', Lit ''health''], ApiHealth)]"

text \<open>The routes of variant B, in the order of lines 619-940.\<close>

definition routes_B :: "route list" where
  "routes_B =
     [(GET, [], LoginPage),
      (GET, [Lit ''dashboard''], DashboardPage),
      (POST, [Lit ''api'', Lit ''login''], ApiLogin),
      (GET, [Lit ''api'', Lit ''games''], ApiGames),
      (GET, [Lit ''api'', Lit ''games'', Param ''id''], ApiGameById),
      (GET, [Lit ''api'', Lit ''games'', Lit ''steam'', Param ''appid''], ApiGameBySteam),
      (GET, [Lit ''api'', Lit ''games'', Lit ''stats''], ApiStats),
      (GET, [Lit ''api'', Lit ''health''], ApiHealth)]"

definition path_param :: "(string \<times> string) list \<Rightarrow> string \<Rightarrow> string" where
  "path_param ps k = (case map_of ps k of None \<Rightarrow> [] | Some v \<Rightarrow> v)"

text \<open>The application: the request goes to the handler of the route that took it.\<close>

definition serve ::
  "(env \<Rightarrow> (string \<rightharpoonup> jsval) \<Rightarrow> response) \<Rightarrow> (env \<Rightarrow> query \<Rightarrow> response) \<Rightarrow>
   env \<Rightarrow> request \<Rightarrow> endpoint \<times> (string \<times> string) list \<Rightarrow> response" where
  "serve login_h games_h env rq hit =
     (case hit of
        (LoginPage, ps) \<Rightarrow> Response 200 (File ''login.html'')
      | (DashboardPage, ps) \<Rightarrow> Response 200 (File ''index.html'')
      | (SignupPage, ps) \<Rightarrow> Response 200 (File ''signup.html'')
      | (ApiLogin, ps) \<Rightarrow> login_h env (req_body rq)
      | (ApiGames, ps) \<Rightarrow> games_h env (req_query rq)
      | (ApiGameById, ps) \<Rightarrow> game_by_id env (path_param ps ''id'')
      | (ApiGameBySteam, ps) \<Rightarrow> game_by_steam env (path_param ps ''appid'')
      | (ApiStats, ps) \<Rightarrow> games_stats env
      | (ApiHealth, ps) \<Rightarrow> Response 200 (Health ''Server is running'' (now env))
      | (NotFound, ps) \<Rightarrow> Response 404 (Message False ''Endpoint not found'')
      | (ApiSignup, ps) \<Rightarrow> other env ApiSignup rq
      | (ApiOwnedGames, ps) \<Rightarrow> other env ApiOwnedGames rq)"

definition app_A :: "env \<Rightarrow> request \<Rightarrow> response" where
  "app_A env rq = serve login_A games_A env rq (dispatch routes_A (req_method rq) (req_path rq))"

definition app_B :: "env \<Rightarrow> request \<Rightarrow> response" where
  "app_B env rq = serve login_B games_B env rq (dispatch routes_B (req_method rq) (req_path rq))"

section \<open>The filters as the specification lists them\<close>

text \<open>
  The specification describes the predicate assembly by what each filter contributes:
  a filter that is present and not empty contributes one condition with one bound
  value, in the order search, minPrice, maxPrice, minHours, maxHours. \<open>spec_filters\<close>
  says that in one expression, to be compared with the arrays the code builds. The value
  of a bound is \<^verbatim>\<open>parseFloat\<close> of its text, whatever that is.
\<close>

definition contribution ::
  "query \<Rightarrow> string \<Rightarrow> string \<Rightarrow> (string \<Rightarrow> jsval) \<Rightarrow> (string \<times> jsval) list" where
  "contribution q k cond val =
     (case q k of None \<Rightarrow> [] | Some s \<Rightarrow> if s = [] then [] else [(cond, val s)])"

definition like_pattern :: "string \<Rightarrow> jsval" where
  "like_pattern s = Str (''%'' @ s @ ''%'')"

definition bound_value :: "string \<Rightarrow> jsval" where
  "bound_value s = Num (parseFloat s)"

definition spec_filters :: "query \<Rightarrow> (string \<times> jsval) list" where
  "spec_filters q =
     contribution q ''search'' ''name LIKE ?'' like_pattern
     @ contribution q ''minPrice'' ''price_usd >= ?'' bound_value
     @ contribution q ''maxPrice'' ''price_usd <= ?'' bound_value
     @ contribution q ''minHours'' ''hours_to_beat >= ?'' bound_value
     @ contribution q ''maxHours'' ''hours_to_beat <= ?'' bound_value"



section \<open>Collaborators for the examples\<close>

text \<open>A database given as a function, a password check that rejects everything, and the
  scenario of the specification: twelve rows match \<^verbatim>\<open>portal\<close>, the first page has five.\<close>

definition stub_env :: "(string \<Rightarrow> jsval list \<Rightarrow> exn + row list) \<Rightarrow> env" where
  "stub_env db = \<lparr>execute = db, bcrypt_compare = (\<lambda>p h. Inr False), now = [],
                  other = (\<lambda>e rq. Response 404 (Message False ''Endpoint not found''))\<rparr>"




section \<open>Facts about the built-ins\<close>

lemma parseInt_string_cases:
  "parseInt_string s = NaN \<or> (\<exists>n. parseInt_string s = Fin (of_int n))"
proof -
  have "(if c then NaN else Fin (of_int k)) = NaN
        \<or> (\<exists>n. (if c then NaN else Fin (of_int k)) = Fin (of_int n))"
    for c :: bool and k :: int
    by (cases c) (simp_all only: if_True if_False, blast+)
  then show ?thesis
    by (simp only: parseInt_string_def Let_def split_def)
qed

lemma parseInt_cases: "parseInt v = NaN \<or> (\<exists>n. parseInt v = Fin (of_int n))"
  unfolding parseInt_def by (rule parseInt_string_cases)


lemma placeholders_Nil [simp]: "placeholders [] = 0"
  by (simp add: placeholders_def)

lemma placeholders_Cons [simp]:
  "placeholders (c # s) = (if c = CHR ''?'' then 1 else 0) + placeholders s"
  by (simp add: placeholders_def)




section \<open>Pagination in variant A\<close>

lemma clamp_page:
  assumes "x = NaN \<or> (\<exists>n. x = Fin (of_int n))"
  shows "\<exists>p. math_max (Fin 1) (js_or x (Fin 1)) = Fin (of_int p) \<and> 1 \<le> p"
proof -
  from assms consider "x = NaN" | n where "x = Fin (of_int n)" by blast
  then show ?thesis
  proof cases
    case 1
    then have "math_max (Fin 1) (js_or x (Fin 1)) = Fin (of_int 1)" by (simp add: js_or_def)
    then show ?thesis by (intro exI[of _ 1]) simp
  next
    case 2
    then have "math_max (Fin 1) (js_or x (Fin 1)) = Fin (of_int (max 1 n))"
      by (simp add: js_or_def max_def)
    then show ?thesis by (intro exI[of _ "max 1 n"]) simp
  qed
qed

lemma clamp_limit:
  assumes "x = NaN \<or> (\<exists>n. x = Fin (of_int n))"
  shows "\<exists>l. math_min (Fin 100) (math_max (Fin 1) (js_or x (Fin 20))) = Fin (of_int l)
             \<and> 1 \<le> l \<and> l \<le> 100"
proof -
  from assms consider "x = NaN" | n where "x = Fin (of_int n)" by blast
  then show ?thesis
  proof cases
    case 1
    then have "math_min (Fin 100) (math_max (Fin 1) (js_or x (Fin 20))) = Fin (of_int 20)"
      by (simp add: js_or_def)
    then show ?thesis by (intro exI[of _ 20]) simp
  next
    case 2
    then have "math_min (Fin 100) (math_max (Fin 1) (js_or x (Fin 20)))
        = Fin (of_int (min 100 (max 1 (if n = 0 then 20 else n))))"
      by (simp add: js_or_def max_def min_def)
    then show ?thesis by (intro exI[of _ "min 100 (max 1 (if n = 0 then 20 else n))"]) simp
  qed
qed

lemma pageNum_A_int: "\<exists>p. pageNum_A q = Fin (of_int p) \<and> 1 \<le> p"
  unfolding pageNum_A_def by (rule clamp_page[OF parseInt_cases])

lemma limitNum_A_int: "\<exists>l. limitNum_A q = Fin (of_int l) \<and> 1 \<le> l \<and> l \<le> 100"
  unfolding limitNum_A_def by (rule clamp_limit[OF parseInt_cases])

lemma offset_of_int: "offset_of (Fin (of_int p)) (Fin (of_int l)) = Fin (of_int ((p - 1) * l))"
  by (simp add: offset_of_def)

text \<open>In variant A the clamp holds for every query string: the page is an integer from 1
  on, the page size an integer from 1 to 100 (20 when the parameter is absent), and the
  offset is their product as the code writes it.\<close>

lemma pagination_A_clamped:
  "\<exists>p l. pageNum_A q = Fin (of_int p) \<and> 1 \<le> p
         \<and> limitNum_A q = Fin (of_int l) \<and> 1 \<le> l \<and> l \<le> 100
         \<and> offset_of (pageNum_A q) (limitNum_A q) = Fin (of_int ((p - 1) * l))"
proof -
  obtain p where p: "pageNum_A q = Fin (of_int p)" "1 \<le> p"
    using pageNum_A_int by blast
  obtain l where l: "limitNum_A q = Fin (of_int l)" "1 \<le> l" "l \<le> 100"
    using limitNum_A_int by blast
  have "offset_of (pageNum_A q) (limitNum_A q) = Fin (of_int ((p - 1) * l))"
    unfolding p l by (rule offset_of_int)
  with p l show ?thesis by blast
qed

lemma pagination_A_defaults: "pageNum_A Map.empty = Fin 1 \<and> limitNum_A Map.empty = Fin 20"
  by code_simp

section \<open>The filters\<close>

lemma given_same: "given_A x = truthy_string x"
  by (cases x) (simp_all add: given_A_def truthy_string_def)

lemma filters_same: "filters_A q = filters_B q"
  by (simp add: filters_A_def filters_B_def build_filters_def given_same)

lemma push_contribution:
  "push_filter (truthy_string (q k)) cond (val (text_of (q k))) (cs, vs)
     = (cs @ map fst (contribution q k cond val), vs @ map snd (contribution q k cond val))"
  by (cases "q k") (simp_all add: push_filter_def truthy_string_def contribution_def text_of_def)

lemma filters_B_spec: "filters_B q = (map fst (spec_filters q), map snd (spec_filters q))"
proof -
  have p: "push_filter (truthy_string (q k)) cond (Num (parseFloat (text_of (q k)))) (cs, vs)
     = (cs @ map fst (contribution q k cond bound_value),
        vs @ map snd (contribution q k cond bound_value))"
    for k cond cs vs
    using push_contribution[of q k cond bound_value cs vs] by (simp add: bound_value_def)
  have s: "push_filter (truthy_string (q k)) cond (Str (''%'' @ text_of (q k) @ ''%'')) (cs, vs)
     = (cs @ map fst (contribution q k cond like_pattern),
        vs @ map snd (contribution q k cond like_pattern))"
    for k cond cs vs
    using push_contribution[of q k cond like_pattern cs vs] by (simp add: like_pattern_def)
  show ?thesis
    unfolding filters_B_def build_filters_def Let_def spec_filters_def
    by (simp only: p s append_Nil map_append append_assoc)
qed

lemma filters_A_spec: "filters_A q = (map fst (spec_filters q), map snd (spec_filters q))"
  by (simp only: filters_same filters_B_spec)







section \<open>Routing of the statistics request\<close>

lemma stats_is_not_a_number: "game_by_id env ''stats'' = Response 400 (Message False ''Invalid game ID'')"
proof -
  have "string_to_number ''stats'' = NaN" by code_simp
  then show ?thesis by (simp add: game_by_id_def find_game_def isNaN_def)
qed

lemma dispatch_stats_A:
  "dispatch routes_A GET ''/api/games/stats'' = (ApiGameById, [(''id'', ''stats'')])"
  by code_simp

lemma dispatch_stats_B:
  "dispatch routes_B GET ''/api/games/stats'' = (ApiGameById, [(''id'', ''stats'')])"
  by code_simp

text \<open>
  C1. The claim: a request \<^verbatim>\<open>GET /api/games/stats\<close> is answered with the aggregate
  statistics. In both variants the route \<^verbatim>\<open>/api/games/:id\<close> is registered before
  \<^verbatim>\<open>/api/games/stats\<close>, so the request goes to the handler of a single game with the id
  \<^verbatim>\<open>stats\<close>, which is not a number: the answer is 400 \<^verbatim>\<open>Invalid game ID\<close>, whatever the
  database holds, and the statistics handler is never reached.
\<close>

theorem stats_request_answered_by_game_by_id:
  "dispatch routes_A GET ''/api/games/stats'' = (ApiGameById, [(''id'', ''stats'')])
   \<and> dispatch routes_B GET ''/api/games/stats'' = (ApiGameById, [(''id'', ''stats'')])
   \<and> app_A env \<lparr>req_method = GET, req_path = ''/api/games/stats'', req_query = q, req_body = b\<rparr>
       = Response 400 (Message False ''Invalid game ID'')
   \<and> app_B env \<lparr>req_method = GET, req_path = ''/api/games/stats'', req_query = q, req_body = b\<rparr>
       = Response 400 (Message False ''Invalid game ID'')"
  by (simp add: app_A_def app_B_def dispatch_stats_A dispatch_stats_B serve_def path_param_def
      stats_is_not_a_number)

section \<open>Pagination in variant B\<close>

text \<open>
  C2. The claim: for every \<^verbatim>\<open>page\<close> and \<^verbatim>\<open>limit\<close> the effective page is at least 1, the
  page size lies in 1..100 and the offset is (page - 1) * size. Variant A does so
  (\<open>pagination_A_clamped\<close>). Variant B leaves out the \<^verbatim>\<open>|| 1\<close> and \<^verbatim>\<open>|| 20\<close>: with
  \<^verbatim>\<open>page=abc\<close> or \<^verbatim>\<open>limit=abc\<close> the page, the size and the offset are \<open>NaN\<close>, and \<open>NaN\<close>
  is what the fetch query is given as its limit and offset parameters.
\<close>

theorem pagination_B_not_a_number:
  "pageNum_B [''page'' \<mapsto> ''abc''] = NaN
   \<and> limitNum_B [''limit'' \<mapsto> ''abc''] = NaN
   \<and> offset_of (pageNum_B [''page'' \<mapsto> ''abc'']) (limitNum_B [''page'' \<mapsto> ''abc'']) = NaN
   \<and> gamesParams_B (snd (filters_B [''page'' \<mapsto> ''abc'', ''limit'' \<mapsto> ''abc'']))
        (limitNum_B [''page'' \<mapsto> ''abc'', ''limit'' \<mapsto> ''abc''])
        (offset_of (pageNum_B [''page'' \<mapsto> ''abc'', ''limit'' \<mapsto> ''abc''])
           (limitNum_B [''page'' \<mapsto> ''abc'', ''limit'' \<mapsto> ''abc'']))
       = [Num NaN, Num NaN]"
  by code_simp

section \<open>Bounds that do not parse\<close>

text \<open>
  C3. The claim: a price or hour bound that is present but does not parse to a number is
  treated as absent. The code has no such test: at \<^verbatim>\<open>minPrice=abc\<close> both variants push
  the condition and bind \<open>NaN\<close>.
\<close>

theorem unparseable_bound_is_pushed:
  "filters_A [''minPrice'' \<mapsto> ''abc''] = ([''price_usd >= ?''], [Num NaN])
   \<and> filters_B [''minPrice'' \<mapsto> ''abc''] = ([''price_usd >= ?''], [Num NaN])"
  by code_simp

text \<open>
  C3, as amended: in both variants the conditions and the bound values are exactly the
  contributions of the filters that are present and not empty, in the fixed order; a
  bound that is present and not empty contributes its condition and \<^verbatim>\<open>parseFloat\<close> of its
  text, also when that is \<open>NaN\<close>, and a bound that is absent or empty contributes
  nothing.
\<close>

theorem present_bound_always_contributes:
  "filters_A q = (map fst (spec_filters q), map snd (spec_filters q))
   \<and> filters_B q = (map fst (spec_filters q), map snd (spec_filters q))
   \<and> (q k = Some s \<and> s \<noteq> [] \<and> parseFloat s = NaN
        \<longrightarrow> contribution q k cond bound_value = [(cond, Num NaN)])
   \<and> (q k = None \<or> q k = Some [] \<longrightarrow> contribution q k cond bound_value = [])"
  by (auto simp: filters_A_spec filters_B_spec contribution_def bound_value_def)

theorem present_bound_always_contributes_witness:
  "filters_A [''maxHours'' \<mapsto> ''ten''] = ([''hours_to_beat <= ?''], [Num NaN])
   \<and> contribution [''maxHours'' \<mapsto> ''ten''] ''maxHours'' ''hours_to_beat <= ?'' bound_value
       = [(''hours_to_beat <= ?'', Num NaN)]
   \<and> contribution [''maxHours'' \<mapsto> ''ten''] ''minHours'' ''hours_to_beat >= ?'' bound_value = []"
proof -
  have nan: "parseFloat ''ten'' = NaN" by code_simp
  have sf: "spec_filters [''maxHours'' \<mapsto> ''ten''] = [(''hours_to_beat <= ?'', Num NaN)]"
    by code_simp
  show ?thesis
    using present_bound_always_contributes
      [of "[''maxHours'' \<mapsto> ''ten'']" "''maxHours''" "''ten''" "''hours_to_beat <= ?''"]
      present_bound_always_contributes
      [of "[''maxHours'' \<mapsto> ''ten'']" "''minHours''" "''ten''" "''hours_to_beat >= ?''"]
      nan sf
    by simp
qed

section \<open>The two queries of GET /api/games\<close>




















section \<open>Sorting\<close>








section \<open>Login\<close>

lemma login_no_user:
  "truthy (body_field b ''username'') \<Longrightarrow> truthy (body_field b ''password'') \<Longrightarrow>
   execute env sql [body_field b ''username''] = Inr [] \<Longrightarrow>
   login sql flds env b = Response 401 (Message False ''Invalid username or password'')"
  by (simp add: login_def)

lemma login_wrong_password:
  "truthy (body_field b ''username'') \<Longrightarrow> truthy (body_field b ''password'') \<Longrightarrow>
   execute env sql [body_field b ''username''] = Inr (user # rest) \<Longrightarrow>
   bcrypt_compare env (body_field b ''password'') (get_prop user ''password_hash'') = Inr False \<Longrightarrow>
   login sql flds env b = Response 401 (Message False ''Invalid username or password'')"
  by (simp add: login_def)

text \<open>
  C8. For requests that give both fields, in either variant: when no user row matches
  the name, and when a row matches but \<^verbatim>\<open>bcrypt.compare\<close> answers false, the response is
  the same 401 with the message \<^verbatim>\<open>Invalid username or password\<close>.
\<close>

theorem login_failures_identical:
  assumes "truthy (body_field b1 ''username'')" and "truthy (body_field b1 ''password'')"
    and "truthy (body_field b2 ''username'')" and "truthy (body_field b2 ''password'')"
    and "(handler, sql) = (login_A, login_sql_A) \<or> (handler, sql) = (login_B, login_sql_B)"
    and "execute env1 sql [body_field b1 ''username''] = Inr []"
    and "execute env2 sql [body_field b2 ''username''] = Inr (user # rest)"
    and "bcrypt_compare env2 (body_field b2 ''password'') (get_prop user ''password_hash'') = Inr False"
  shows "handler env1 b1 = Response 401 (Message False ''Invalid username or password'')
         \<and> handler env2 b2 = handler env1 b1"
proof -
  from assms(5) obtain flds where h: "handler = login sql flds"
    by (auto simp: login_A_def login_B_def)
  show ?thesis
    unfolding h using assms(1-4,6-8) by (simp add: login_no_user login_wrong_password)
qed

text \<open>
  A run of C8: an unknown name against an empty table, and a known name with a wrong
  password.
\<close>

theorem login_failures_identical_witness:
  "login_A (stub_env (\<lambda>sql ps. Inr [])) [''username'' \<mapsto> Str ''nobody'', ''password'' \<mapsto> Str ''secret'']
     = Response 401 (Message False ''Invalid username or password'')
   \<and> login_A (stub_env (\<lambda>sql ps. Inr [[(''id'', Num (Fin 7)), (''username'', Str ''ann''),
                                          (''password_hash'', Str ''$2b$12$abc'')]]))
        [''username'' \<mapsto> Str ''ann'', ''password'' \<mapsto> Str ''wrong'']
     = login_A (stub_env (\<lambda>sql ps. Inr []))
         [''username'' \<mapsto> Str ''nobody'', ''password'' \<mapsto> Str ''secret'']"
  by (rule login_failures_identical[where sql = login_sql_A and user = "[(''id'', Num (Fin 7)), (''username'', Str ''ann''),
                                          (''password_hash'', Str ''$2b$12$abc'')]" and rest = "[]"])
     (simp_all add: body_field_def stub_env_def)

section \<open>Pagination metadata\<close>










section \<open>The id of GET /api/games/:id\<close>



end
